theory Spec2Isabelle
  imports Complex_Main "HOL-Library.AList" "HOL-Library.Multiset"
begin

section \<open>Heredity: exact inference by enumeration (heredity.py)\<close>

text \<open>
  The embedding follows \<^verbatim>\<open>src/L2Uncertainty/heredity/heredity.py\<close> function by function.
  Conventions of the model:
  \<^item> Python floats are idealised as \<^typ>\<open>real\<close>; every statement below is about exact
    arithmetic.
  \<^item> A Python \<^verbatim>\<open>dict\<close> is an association list with distinct keys, in insertion order;
    assigning to an existing key keeps its position (\<^const>\<open>AList.update\<close>).
  \<^item> A Python \<^verbatim>\<open>set\<close> is a list of its elements in the order the set is iterated; the
    order of a set built from a dict is taken to be the dict's key order, and a set difference
    keeps the order of its left operand. Statements about the enumeration are made on the
    underlying sets, so they do not depend on this choice.
  \<^item> An exception is a value \<open>Inl e\<close> of a sum type; a loop stops at the first one.
\<close>

subsection \<open>The probability tables \<^verbatim>\<open>PROBS\<close>\<close>

text \<open>
  \<^verbatim>\<open>PROBS["gene"]\<close> and \<^verbatim>\<open>PROBS["trait"]\<close> have the keys 0, 1 and 2 only; every lookup in the
  source uses one of these three literals.
\<close>

definition PROBS_gene :: "nat \<Rightarrow> real" where
  "PROBS_gene k = (if k = 2 then 0.01 else if k = 1 then 0.03 else 0.96)"

definition PROBS_trait :: "nat \<Rightarrow> bool \<Rightarrow> real" where
  "PROBS_trait k b =
     (if k = 2 then (if b then 0.65 else 0.35)
      else if k = 1 then (if b then 0.56 else 0.44)
      else (if b then 0.01 else 0.99))"

definition PROBS_mutation :: real where
  "PROBS_mutation = 0.01"

subsection \<open>Data\<close>

datatype error = KeyError | ZeroDivisionError

record person =
  name :: string
  mother :: "string option"
  father :: "string option"
  trait :: "bool option"

type_synonym people = "(string \<times> person) list"


text \<open>
  The entry \<^verbatim>\<open>probabilities[person]\<close>: the dict \<^verbatim>\<open>"gene"\<close> with keys 2, 1, 0 and the dict
  \<^verbatim>\<open>"trait"\<close> with keys True, False.
\<close>

record dist =
  gene_2 :: real
  gene_1 :: real
  gene_0 :: real
  trait_True :: real
  trait_False :: real

type_synonym probabilities = "(string \<times> dist) list"

subsection \<open>Loops that may raise\<close>

fun foldE :: "('a \<Rightarrow> 's \<Rightarrow> error + 's) \<Rightarrow> 'a list \<Rightarrow> 's \<Rightarrow> error + 's" where
  "foldE f [] s = Inr s"
| "foldE f (x # xs) s = (case f x s of Inl e \<Rightarrow> Inl e | Inr s' \<Rightarrow> foldE f xs s')"

subsection \<open>\<^verbatim>\<open>load_data\<close>\<close>



subsection \<open>\<^verbatim>\<open>powerset\<close>\<close>

text \<open>\<^verbatim>\<open>itertools.combinations(s, r)\<close>: the \<open>r\<close>-element subsequences in lexicographic index order.\<close>

fun combinations :: "'a list \<Rightarrow> nat \<Rightarrow> 'a list list" where
  "combinations xs 0 = [[]]"
| "combinations [] (Suc r) = []"
| "combinations (x # xs) (Suc r) = map ((#) x) (combinations xs r) @ combinations xs (Suc r)"

definition powerset :: "'a list \<Rightarrow> 'a list list" where
  "powerset s = concat (map (combinations s) [0 ..< length s + 1])"

text \<open>The set difference \<^verbatim>\<open>names - one_gene\<close>.\<close>

definition set_minus :: "'a list \<Rightarrow> 'a list \<Rightarrow> 'a list" where
  "set_minus xs ys = filter (\<lambda>x. x \<notin> set ys) xs"

subsection \<open>\<^verbatim>\<open>joint_probability\<close>\<close>

definition joint_probability :: "people \<Rightarrow> string list \<Rightarrow> string list \<Rightarrow> string list \<Rightarrow> real" where
  "joint_probability people one_gene two_genes have_trait =
     (let entire0 = 1;
          children_to_check = map fst people;
          entire1 = fold (\<lambda>child entire.
                      if child \<notin> set one_gene \<union> set two_genes \<union> set have_trait
                      then entire * (PROBS_gene 0 * PROBS_trait 0 False) else entire)
                    children_to_check entire0;
          entire2 = (if two_genes \<noteq> []
                     then fold (\<lambda>_ entire. entire * (PROBS_gene 2 * PROBS_trait 2 True))
                            two_genes entire1
                     else entire1);
          entire3 = (if one_gene \<noteq> []
                     then fold (\<lambda>_ entire. entire *
                              (((1 - PROBS_mutation) * (1 - PROBS_mutation)
                                 + PROBS_mutation * PROBS_mutation) * PROBS_trait 1 False))
                            one_gene entire2
                     else entire2)
      in entire3)"

subsection \<open>\<^verbatim>\<open>update\<close>\<close>

definition update_trait :: "nat \<Rightarrow> bool \<Rightarrow> real \<Rightarrow> real" where
  "update_trait num_of_copies logic_sign p = PROBS_trait num_of_copies logic_sign + p"

text \<open>
  An assignment below \<^verbatim>\<open>probabilities[child]\<close>: the lookup of \<^verbatim>\<open>child\<close> raises \<^verbatim>\<open>KeyError\<close>
  when the key is absent.
\<close>

definition modify_entry :: "string \<Rightarrow> (dist \<Rightarrow> dist) \<Rightarrow> probabilities \<Rightarrow> error + probabilities" where
  "modify_entry child f probs =
     (case map_of probs child of
        None \<Rightarrow> Inl KeyError
      | Some d \<Rightarrow> Inr (AList.update child (f d) probs))"

definition update_one_gene :: "string list \<Rightarrow> real \<Rightarrow> string \<Rightarrow> probabilities \<Rightarrow> error + probabilities" where
  "update_one_gene have_trait p child probs =
     (case modify_entry child (\<lambda>d. d\<lparr>gene_1 := PROBS_gene 1 + p\<rparr>) probs of
        Inl e \<Rightarrow> Inl e
      | Inr probs' \<Rightarrow>
          if child \<in> set have_trait
          then modify_entry child (\<lambda>d. d\<lparr>trait_True := update_trait 1 True p\<rparr>) probs'
          else modify_entry child (\<lambda>d. d\<lparr>trait_False := update_trait 1 False p\<rparr>) probs')"

definition update_two_genes :: "string list \<Rightarrow> real \<Rightarrow> string \<Rightarrow> probabilities \<Rightarrow> error + probabilities" where
  "update_two_genes have_trait p child probs =
     (case modify_entry child (\<lambda>d. d\<lparr>gene_2 := PROBS_gene 2 + p\<rparr>) probs of
        Inl e \<Rightarrow> Inl e
      | Inr probs' \<Rightarrow>
          if child \<in> set have_trait
          then modify_entry child (\<lambda>d. d\<lparr>trait_True := update_trait 2 True p\<rparr>) probs'
          else modify_entry child (\<lambda>d. d\<lparr>trait_False := update_trait 2 False p\<rparr>) probs')"

definition update_no_gene ::
  "string list \<Rightarrow> string list \<Rightarrow> string list \<Rightarrow> real \<Rightarrow> string \<Rightarrow> probabilities \<Rightarrow> error + probabilities" where
  "update_no_gene one_gene two_genes have_trait p child probs =
     (if child \<notin> set one_gene \<union> set two_genes \<union> set have_trait
      then (case modify_entry child (\<lambda>d. d\<lparr>gene_0 := PROBS_gene 0 + p\<rparr>) probs of
              Inl e \<Rightarrow> Inl e
            | Inr probs' \<Rightarrow>
                if child \<in> set have_trait
                then modify_entry child (\<lambda>d. d\<lparr>trait_True := update_trait 0 True p\<rparr>) probs'
                else modify_entry child (\<lambda>d. d\<lparr>trait_False := update_trait 0 False p\<rparr>) probs')
      else Inr probs)"

definition update ::
  "probabilities \<Rightarrow> string list \<Rightarrow> string list \<Rightarrow> string list \<Rightarrow> real \<Rightarrow> error + probabilities" where
  "update probs one_gene two_genes have_trait p =
     (case (if one_gene \<noteq> [] then foldE (update_one_gene have_trait p) one_gene probs
            else Inr probs) of
        Inl e \<Rightarrow> Inl e
      | Inr probs1 \<Rightarrow>
     (case (if two_genes \<noteq> [] then foldE (update_two_genes have_trait p) two_genes probs1
            else Inr probs1) of
        Inl e \<Rightarrow> Inl e
      | Inr probs2 \<Rightarrow>
          foldE (update_no_gene one_gene two_genes have_trait p) (map fst probs2) probs2))"

subsection \<open>\<^verbatim>\<open>normalize\<close>\<close>

text \<open>
  \<^verbatim>\<open>enumerate\<close> over the three gene values yields the indices 0, 1, 2, which are the keys of the
  gene dict; over the two trait values it yields 0 and 1, which Python identifies with the keys
  False and True. Each \<^verbatim>\<open>/=\<close> raises \<^verbatim>\<open>ZeroDivisionError\<close> on a zero divisor. The totals are
  computed once, before the divisions.
\<close>

definition normalize_entry :: "dist \<Rightarrow> error + dist" where
  "normalize_entry d =
     (let total_gene = 0 + gene_2 d + gene_1 d + gene_0 d in
      if total_gene = 0 then Inl ZeroDivisionError
      else
        let d1 = d\<lparr>gene_0 := gene_0 d / total_gene\<rparr>;
            d2 = d1\<lparr>gene_1 := gene_1 d1 / total_gene\<rparr>;
            d3 = d2\<lparr>gene_2 := gene_2 d2 / total_gene\<rparr>;
            total_trait = 0 + trait_True d3 + trait_False d3
        in if total_trait = 0 then Inl ZeroDivisionError
           else
             let d4 = d3\<lparr>trait_False := trait_False d3 / total_trait\<rparr>;
                 d5 = d4\<lparr>trait_True := trait_True d4 / total_trait\<rparr>
             in Inr d5)"

fun normalize :: "probabilities \<Rightarrow> error + probabilities" where
  "normalize [] = Inr []"
| "normalize ((child, d) # rest) =
     (case normalize_entry d of
        Inl e \<Rightarrow> Inl e
      | Inr d' \<Rightarrow> (case normalize rest of
                     Inl e \<Rightarrow> Inl e
                   | Inr rest' \<Rightarrow> Inr ((child, d') # rest')))"

text \<open>
  The same function with the mutation made visible: the table as the run leaves it, and the
  exception if one was raised. A person whose gene total is zero is left untouched; a person
  whose trait total is zero keeps the divided gene values; the entries after the failing one
  are not reached.
\<close>

definition normalize_entry_in_place :: "dist \<Rightarrow> error option \<times> dist" where
  "normalize_entry_in_place d =
     (let total_gene = 0 + gene_2 d + gene_1 d + gene_0 d in
      if total_gene = 0 then (Some ZeroDivisionError, d)
      else
        let d1 = d\<lparr>gene_0 := gene_0 d / total_gene\<rparr>;
            d2 = d1\<lparr>gene_1 := gene_1 d1 / total_gene\<rparr>;
            d3 = d2\<lparr>gene_2 := gene_2 d2 / total_gene\<rparr>;
            total_trait = 0 + trait_True d3 + trait_False d3
        in if total_trait = 0 then (Some ZeroDivisionError, d3)
           else
             let d4 = d3\<lparr>trait_False := trait_False d3 / total_trait\<rparr>;
                 d5 = d4\<lparr>trait_True := trait_True d4 / total_trait\<rparr>
             in (None, d5))"

fun normalize_in_place :: "probabilities \<Rightarrow> error option \<times> probabilities" where
  "normalize_in_place [] = (None, [])"
| "normalize_in_place ((child, d) # rest) =
     (case normalize_entry_in_place d of
        (Some e, d') \<Rightarrow> (Some e, (child, d') # rest)
      | (None, d') \<Rightarrow> (case normalize_in_place rest of
                         (raised, rest') \<Rightarrow> (raised, (child, d') # rest')))"

subsection \<open>\<^verbatim>\<open>main\<close>\<close>

text \<open>
  The evidence check \<^verbatim>\<open>any(... for person in names)\<close>: evaluated left to right, stopping at the
  first person that violates the evidence.
\<close>

fun fails_evidence :: "people \<Rightarrow> string list \<Rightarrow> string list \<Rightarrow> error + bool" where
  "fails_evidence people [] have_trait = Inr False"
| "fails_evidence people (person # rest) have_trait =
     (case map_of people person of
        None \<Rightarrow> Inl KeyError
      | Some info \<Rightarrow>
          if trait info \<noteq> None \<and> trait info \<noteq> Some (person \<in> set have_trait)
          then Inr True
          else fails_evidence people rest have_trait)"

text \<open>
  The three nested loops of \<^verbatim>\<open>main\<close>, with the statements of the innermost body as a parameter:
  \<open>body one_gene two_genes have_trait\<close> transforms the state.
\<close>

definition enumeration ::
  "people \<Rightarrow> (string list \<Rightarrow> string list \<Rightarrow> string list \<Rightarrow> 's \<Rightarrow> error + 's) \<Rightarrow> 's \<Rightarrow> error + 's" where
  "enumeration people body s0 =
     (let names = map fst people in
      foldE (\<lambda>have_trait s.
               case fails_evidence people names have_trait of
                 Inl e \<Rightarrow> Inl e
               | Inr fails \<Rightarrow>
                   if fails then Inr s
                   else foldE (\<lambda>one_gene s1.
                                 foldE (\<lambda>two_genes s2. body one_gene two_genes have_trait s2)
                                   (powerset (set_minus names one_gene)) s1)
                          (powerset names) s)
        (powerset names) s0)"

definition initial_probabilities :: "people \<Rightarrow> probabilities" where
  "initial_probabilities people =
     map (\<lambda>(person, _). (person,
            \<lparr>gene_2 = 0, gene_1 = 0, gene_0 = 0, trait_True = 0, trait_False = 0\<rparr>)) people"

definition accumulate :: "people \<Rightarrow> error + probabilities" where
  "accumulate people =
     enumeration people
       (\<lambda>one_gene two_genes have_trait probs.
          update probs one_gene two_genes have_trait
            (joint_probability people one_gene two_genes have_trait))
       (initial_probabilities people)"

text \<open>\<^verbatim>\<open>main\<close> from the loaded data to the normalized table that it prints.\<close>

definition main :: "people \<Rightarrow> error + probabilities" where
  "main people =
     (case accumulate people of
        Inl e \<Rightarrow> Inl e
      | Inr probs \<Rightarrow> normalize probs)"

section \<open>Notions used in the statements\<close>

subsection \<open>The three per-person factors of \<^verbatim>\<open>joint_probability\<close>\<close>

definition no_gene_factor :: real where
  "no_gene_factor = PROBS_gene 0 * PROBS_trait 0 False"

definition two_genes_factor :: real where
  "two_genes_factor = PROBS_gene 2 * PROBS_trait 2 True"

definition one_gene_factor :: real where
  "one_gene_factor =
     ((1 - PROBS_mutation) * (1 - PROBS_mutation) + PROBS_mutation * PROBS_mutation)
       * PROBS_trait 1 False"

subsection \<open>Totals of a person's two distributions\<close>

definition total_gene :: "dist \<Rightarrow> real" where
  "total_gene d = gene_2 d + gene_1 d + gene_0 d"

definition total_trait :: "dist \<Rightarrow> real" where
  "total_trait d = trait_True d + trait_False d"


subsection \<open>The hypotheses that the loops of \<^verbatim>\<open>main\<close> visit\<close>

text \<open>
  The two inner loops as a list: every \<open>one_gene\<close> of \<^verbatim>\<open>powerset(names)\<close> paired with every
  \<open>two_genes\<close> of \<^verbatim>\<open>powerset(names - one_gene)\<close>, in loop order.
\<close>

definition gene_assignments :: "string list \<Rightarrow> (string list \<times> string list) list" where
  "gene_assignments names =
     concat (map (\<lambda>one_gene. map (Pair one_gene) (powerset (set_minus names one_gene)))
               (powerset names))"

text \<open>
  The three loops as a list of triples \<open>(have_trait, one_gene, two_genes)\<close>: the sets
  \<open>have_trait\<close> on which \<^const>\<open>fails_evidence\<close> is false, each with every gene assignment.
  Lemma \<open>enumeration_visits_hypotheses\<close> below shows that the loops of \<^const>\<open>enumeration\<close> run
  their body on exactly this list, in this order.
\<close>

definition hypotheses :: "people \<Rightarrow> (string list \<times> string list \<times> string list) list" where
  "hypotheses people =
     (let names = map fst people in
      concat (map (\<lambda>have_trait. map (Pair have_trait) (gene_assignments names))
                (filter (\<lambda>have_trait. fails_evidence people names have_trait = Inr False)
                   (powerset names))))"

text \<open>
  A set \<open>H\<close> of people with the trait agrees with the evidence: whoever has a known trait is in
  \<open>H\<close> exactly when the observation is true.
\<close>

definition matches_evidence :: "people \<Rightarrow> string set \<Rightarrow> bool" where
  "matches_evidence people H =
     (\<forall>person info b. map_of people person = Some info \<and> trait info = Some b
         \<longrightarrow> (person \<in> H) = b)"



subsection \<open>Example pedigrees\<close>

definition founder :: "string \<Rightarrow> person" where
  "founder n = \<lparr>name = n, mother = None, father = None, trait = None\<rparr>"

definition child_of :: "string \<Rightarrow> string \<Rightarrow> string \<Rightarrow> person" where
  "child_of n m f = \<lparr>name = n, mother = Some m, father = Some f, trait = None\<rparr>"

definition single_founder :: people where
  "single_founder = [(''A'', founder ''A'')]"

definition family :: people where
  "family = [(''Harry'', child_of ''Harry'' ''Lily'' ''James''),
             (''James'', founder ''James''), (''Lily'', founder ''Lily'')]"

definition zero_dist :: dist where
  "zero_dist = \<lparr>gene_2 = 0, gene_1 = 0, gene_0 = 0, trait_True = 0, trait_False = 0\<rparr>"

text \<open>A person observed to have the trait, alone and next to a founder without evidence.\<close>

definition observed :: people where
  "observed = [(''A'', \<lparr>name = ''A'', mother = None, father = None, trait = Some True\<rparr>)]"







section \<open>The joint probability\<close>

lemmas tables = PROBS_gene_def PROBS_trait_def PROBS_mutation_def

lemma fold_scale_if:
  "fold (\<lambda>child entire. if P child then entire * c else entire) xs (e::real)
     = e * c ^ length (filter P xs)"
  by (induction xs arbitrary: e) (simp_all add: mult.assoc)

lemma fold_scale_always:
  "fold (\<lambda>_ entire. entire * c) xs (e::real) = e * c ^ length xs"
  by (induction xs arbitrary: e) (simp_all add: mult.assoc)

text \<open>
  The value of \<^const>\<open>joint_probability\<close> is a product of three powers: one flat constant per
  person outside all three sets, one per member of \<open>two_genes\<close> and one per member of
  \<open>one_gene\<close>.
\<close>

lemma joint_probability_closed_form:
  "joint_probability people one_gene two_genes have_trait =
     no_gene_factor ^ length (filter
         (\<lambda>child. child \<notin> set one_gene \<union> set two_genes \<union> set have_trait) (map fst people))
     * two_genes_factor ^ length two_genes * one_gene_factor ^ length one_gene"
  unfolding joint_probability_def Let_def no_gene_factor_def two_genes_factor_def
    one_gene_factor_def
  by (simp add: fold_scale_if fold_scale_always)

lemma factor_bounds:
  "0 < no_gene_factor" "no_gene_factor \<le> 1"
  "0 < two_genes_factor" "two_genes_factor \<le> 1"
  "0 < one_gene_factor" "one_gene_factor \<le> 1"
  by (simp_all add: no_gene_factor_def two_genes_factor_def one_gene_factor_def tables)

lemma power_in_unit: "0 < (c::real) \<Longrightarrow> c \<le> 1 \<Longrightarrow> 0 < c ^ n \<and> c ^ n \<le> 1"
  by (simp add: power_le_one)

text \<open>
  Claim C1. The claim: a person without parents contributes the population prior
  \<open>PROBS_gene c\<close> of the hypothesised copy count \<open>c\<close>, and a person with parents a factor
  computed from the parents' copy counts (with two-copy parents, \<open>mutation\<^sup>2\<close> for zero copies).
  The code does neither. For the one-person pedigree with the founder hypothesised to carry one
  copy it returns \<open>0.9802 * 0.44\<close>, the gene factor being \<open>0.99\<^sup>2 + 0.01\<^sup>2\<close> and not the prior
  \<open>0.03\<close>; for Harry with zero copies and both parents with two copies it returns the flat
  \<open>0.96 * 0.99\<close> for Harry, not \<open>0.01\<^sup>2 * 0.99\<close>, and the trait factor \<open>0.65\<close> of a person with
  the trait for each parent although neither is in \<open>have_trait\<close>.
\<close>

theorem joint_probability_ignores_inheritance:
  "joint_probability single_founder [''A''] [] [] = 0.9802 * PROBS_trait 1 False
   \<and> joint_probability single_founder [''A''] [] [] \<noteq> PROBS_gene 1 * PROBS_trait 1 False
   \<and> joint_probability family [] [''Lily'', ''James''] []
        = (PROBS_gene 0 * PROBS_trait 0 False) * (PROBS_gene 2 * PROBS_trait 2 True) ^ 2
   \<and> joint_probability family [] [''Lily'', ''James''] []
        \<noteq> (PROBS_mutation ^ 2 * PROBS_trait 0 False) * (PROBS_gene 2 * PROBS_trait 2 False) ^ 2"
  by (simp add: joint_probability_def single_founder_def family_def tables power2_eq_square)

text \<open>
  Claim C8. For every pedigree and every hypothesis the joint probability lies in the closed
  interval from 0 to 1. The function has no failing branch: it reads the keys of \<open>people\<close> and
  the three sets only, so the model is a total function into the reals.
\<close>

theorem joint_probability_in_unit_interval:
  "0 \<le> joint_probability people one_gene two_genes have_trait
   \<and> joint_probability people one_gene two_genes have_trait \<le> 1"
proof -
  let ?a = "no_gene_factor ^ length (filter
      (\<lambda>child. child \<notin> set one_gene \<union> set two_genes \<union> set have_trait) (map fst people))"
  let ?b = "two_genes_factor ^ length two_genes"
  let ?c = "one_gene_factor ^ length one_gene"
  have a: "0 < ?a \<and> ?a \<le> 1" by (rule power_in_unit) (rule factor_bounds)+
  have b: "0 < ?b \<and> ?b \<le> 1" by (rule power_in_unit) (rule factor_bounds)+
  have c: "0 < ?c \<and> ?c \<le> 1" by (rule power_in_unit) (rule factor_bounds)+
  have ab: "0 < ?a * ?b \<and> ?a * ?b \<le> 1" using a b by (simp add: mult_le_one)
  have "0 < ?a * ?b * ?c \<and> ?a * ?b * ?c \<le> 1" using ab c by (simp add: mult_le_one)
  then show ?thesis by (simp add: joint_probability_closed_form)
qed

text \<open>
  Claim C7. Two pedigrees with the same set of names give the same joint probability for every
  hypothesis: the mother, father and trait fields are never read. A dict has each key once,
  hence the two distinctness hypotheses.
\<close>

theorem joint_probability_depends_on_names_only:
  assumes "distinct (map fst people1)" and "distinct (map fst people2)"
    and "set (map fst people1) = set (map fst people2)"
  shows "joint_probability people1 one_gene two_genes have_trait
       = joint_probability people2 one_gene two_genes have_trait"
proof -
  let ?P = "\<lambda>child. child \<notin> set one_gene \<union> set two_genes \<union> set have_trait"
  have "length (filter ?P (map fst people1)) = card ({x. ?P x} \<inter> set (map fst people1))"
    using assms(1) by (rule distinct_length_filter)
  also have "\<dots> = card ({x. ?P x} \<inter> set (map fst people2))"
    using assms(3) by simp
  also have "\<dots> = length (filter ?P (map fst people2))"
    using assms(2) by (rule distinct_length_filter [symmetric])
  finally show ?thesis by (simp only: joint_probability_closed_form)
qed

theorem joint_probability_depends_on_names_only_witness:
  "joint_probability [(''A'', founder ''A''), (''B'', founder ''B'')] [''A''] [] [''B'']
   = joint_probability
       [(''B'', \<lparr>name = ''B'', mother = Some ''A'', father = Some ''C'', trait = Some False\<rparr>),
        (''A'', \<lparr>name = ''A'', mother = Some ''B'', father = None, trait = Some True\<rparr>)]
       [''A''] [] [''B'']"
  by (rule joint_probability_depends_on_names_only) auto

section \<open>The accumulator\<close>

text \<open>
  Claim C2. The claim: \<^verbatim>\<open>update\<close> adds \<open>p\<close> to one gene bucket and one trait bucket of every
  person. The code assigns instead of adding, and what it assigns is a table constant plus
  \<open>p\<close>: on the first call of a run (all buckets zero, nobody in any set, \<open>p = 0.9504\<close>) bucket
  0 becomes \<open>0.96 + 0.9504\<close>; a bucket holding \<open>0.5\<close> is replaced by \<open>0.03 + 0.25\<close>; and a
  person with no copy of the gene who is in \<open>have_trait\<close> is not updated at all.
\<close>

theorem update_overwrites_buckets:
  "update [(''A'', zero_dist)] [] [] [] 0.9504
     = Inr [(''A'', zero_dist\<lparr>gene_0 := 0.96 + 0.9504, trait_False := 0.99 + 0.9504\<rparr>)]
   \<and> update [(''A'', zero_dist\<lparr>gene_1 := 0.5, trait_False := 0.5\<rparr>)] [''A''] [] [] 0.25
     = Inr [(''A'', zero_dist\<lparr>gene_1 := 0.03 + 0.25, trait_False := 0.44 + 0.25\<rparr>)]
   \<and> update [(''A'', zero_dist)] [] [] [''A''] 1 = Inr [(''A'', zero_dist)]"
  by (simp add: update_def update_no_gene_def update_one_gene_def modify_entry_def
      update_trait_def tables zero_dist_def)

section \<open>Normalization\<close>


lemma normalize_entry_zero:
  "total_gene d = 0 \<or> total_trait d = 0 \<Longrightarrow> normalize_entry d = Inl ZeroDivisionError"
  by (auto simp add: normalize_entry_def total_gene_def total_trait_def Let_def)

lemma normalize_entry_error: "normalize_entry d = Inl e \<Longrightarrow> e = ZeroDivisionError"
  by (auto simp add: normalize_entry_def Let_def split: if_splits)



lemma normalize_entry_in_place_agrees:
  "normalize_entry d = (case normalize_entry_in_place d of
       (None, d') \<Rightarrow> Inr d' | (Some e, d') \<Rightarrow> Inl e)"
  by (simp add: normalize_entry_def normalize_entry_in_place_def Let_def)

text \<open>The two models of \<^verbatim>\<open>normalize\<close> agree on whether it raises and on what it returns.\<close>

lemma normalize_in_place_agrees:
  "normalize probs = (case normalize_in_place probs of
       (None, probs') \<Rightarrow> Inr probs' | (Some e, probs') \<Rightarrow> Inl e)"
  by (induction probs rule: normalize_in_place.induct)
     (auto simp add: normalize_entry_in_place_agrees split: prod.splits option.splits sum.splits)





text \<open>
  Claim C9. The claim: when some person's gene buckets or trait buckets sum to zero,
  normalization fails with a normalization error of its own rather than dividing by zero. The
  code has no check of the totals and no error of its own: on the accumulator of all zeros it
  performs the division, and the failure is the \<^verbatim>\<open>ZeroDivisionError\<close> that Python raises there.
\<close>

theorem normalize_all_zero_is_division_by_zero:
  "initial_probabilities single_founder = [(''A'', zero_dist)]
   \<and> normalize_entry zero_dist = Inl ZeroDivisionError
   \<and> normalize (initial_probabilities single_founder) = Inl ZeroDivisionError"
  by (simp add: initial_probabilities_def single_founder_def zero_dist_def normalize_entry_def)

text \<open>
  Claim C9, as amended. If the gene total or the trait total of some person in the table is
  zero, \<^verbatim>\<open>normalize\<close> does not return a table: it fails with the \<^verbatim>\<open>ZeroDivisionError\<close> of the
  division by the zero total, and no value such as NaN is produced.
\<close>

theorem normalize_zero_total_raises:
  assumes "(child, d) \<in> set probs" and "total_gene d = 0 \<or> total_trait d = 0"
  shows "normalize probs = Inl ZeroDivisionError"
  using assms
proof (induction probs)
  case Nil
  then show ?case by simp
next
  case (Cons a probs)
  obtain c0 d0 where a: "a = (c0, d0)" by (cases a)
  show ?case
  proof (cases "normalize_entry d0")
    case (Inl e)
    then show ?thesis using a by (simp add: normalize_entry_error [OF Inl])
  next
    case (Inr d')
    have "\<not> (total_gene d0 = 0 \<or> total_trait d0 = 0)"
      using Inr normalize_entry_zero [of d0] by auto
    with Cons.prems a have "(child, d) \<in> set probs" by auto
    then have "normalize probs = Inl ZeroDivisionError" using Cons by blast
    then show ?thesis using a Inr by simp
  qed
qed

theorem normalize_zero_total_raises_witness:
  "normalize [(''A'', \<lparr>gene_2 = 1, gene_1 = 1, gene_0 = 2, trait_True = 1, trait_False = 3\<rparr>),
              (''B'', zero_dist)] = Inl ZeroDivisionError"
  using normalize_zero_total_raises [of "''B''" zero_dist
    "[(''A'', \<lparr>gene_2 = 1, gene_1 = 1, gene_0 = 2, trait_True = 1, trait_False = 3\<rparr>),
      (''B'', zero_dist)]"]
  by (simp add: total_gene_def zero_dist_def)

section \<open>The enumeration\<close>

subsection \<open>\<^verbatim>\<open>powerset\<close> lists every subset once\<close>

lemma powerset_Nil: "powerset ([] :: 'a list) = [[]]"
  by (simp add: powerset_def)

lemma powerset_single: "powerset [x] = [[], [x]]"
  by (simp add: powerset_def upt_rec)













subsection \<open>Loops over concatenated, mapped and filtered lists\<close>

lemma foldE_append:
  "foldE f (xs @ ys) s = (case foldE f xs s of Inl e \<Rightarrow> Inl e | Inr s' \<Rightarrow> foldE f ys s')"
  by (induction xs arbitrary: s) (auto split: sum.splits)

lemma foldE_concat_map:
  "foldE f (concat (map F xs)) = foldE (\<lambda>x. foldE f (F x)) xs"
proof
  fix s
  show "foldE f (concat (map F xs)) s = foldE (\<lambda>x. foldE f (F x)) xs s"
    by (induction xs arbitrary: s) (auto simp add: foldE_append split: sum.splits)
qed

lemma foldE_map: "foldE f (map g xs) = foldE (\<lambda>x. f (g x)) xs"
proof
  fix s
  show "foldE f (map g xs) s = foldE (\<lambda>x. f (g x)) xs s"
    by (induction xs arbitrary: s) (auto split: sum.splits)
qed

lemma foldE_filter:
  "foldE (\<lambda>x s. if \<not> P x then Inr s else f x s) xs s = foldE f (filter P xs) s"
  by (induction xs arbitrary: s) (auto split: sum.splits)

subsection \<open>The evidence check\<close>

lemma fails_evidence_known:
  "set names \<subseteq> fst ` set people \<Longrightarrow>
   fails_evidence people names have_trait =
     Inr (\<exists>person \<in> set names. \<exists>info b. map_of people person = Some info
            \<and> trait info = Some b \<and> b \<noteq> (person \<in> set have_trait))"
proof (induction names)
  case Nil
  show ?case by simp
next
  case (Cons person rest)
  then obtain info where info: "map_of people person = Some info"
    by (cases "map_of people person") (auto simp add: map_of_eq_None_iff)
  from Cons have IH: "fails_evidence people rest have_trait =
     Inr (\<exists>person \<in> set rest. \<exists>info b. map_of people person = Some info
            \<and> trait info = Some b \<and> b \<noteq> (person \<in> set have_trait))"
    by simp
  show ?case
    by (cases "trait info") (auto simp add: info IH)
qed

text \<open>
  With \<open>names\<close> the keys of \<open>people\<close>, as in \<^verbatim>\<open>main\<close>, the check never raises and is true
  exactly when the set does not agree with the evidence.
\<close>

lemma fails_evidence_main:
  "fails_evidence people (map fst people) have_trait
     = Inr (\<not> matches_evidence people (set have_trait))"
proof -
  have "fails_evidence people (map fst people) have_trait =
     Inr (\<exists>person \<in> set (map fst people). \<exists>info b. map_of people person = Some info
            \<and> trait info = Some b \<and> b \<noteq> (person \<in> set have_trait))"
    by (rule fails_evidence_known) simp
  moreover have "(\<exists>person \<in> set (map fst people). \<exists>info b. map_of people person = Some info
            \<and> trait info = Some b \<and> b \<noteq> (person \<in> set have_trait))
         = (\<not> matches_evidence people (set have_trait))"
    unfolding matches_evidence_def
  proof
    assume "\<exists>person \<in> set (map fst people). \<exists>info b. map_of people person = Some info
        \<and> trait info = Some b \<and> b \<noteq> (person \<in> set have_trait)"
    then show "\<not> (\<forall>person info b. map_of people person = Some info \<and> trait info = Some b
        \<longrightarrow> (person \<in> set have_trait) = b)"
      by blast
  next
    assume "\<not> (\<forall>person info b. map_of people person = Some info \<and> trait info = Some b
        \<longrightarrow> (person \<in> set have_trait) = b)"
    then obtain person info b where *: "map_of people person = Some info" "trait info = Some b"
      "(person \<in> set have_trait) \<noteq> b" by blast
    from *(1) have "person \<in> set (map fst people)"
      by (auto dest: map_of_SomeD intro: rev_image_eqI)
    with * show "\<exists>person \<in> set (map fst people). \<exists>info b. map_of people person = Some info
        \<and> trait info = Some b \<and> b \<noteq> (person \<in> set have_trait)"
      by blast
  qed
  ultimately show ?thesis by simp
qed

lemma hypotheses_unfold:
  "hypotheses people =
      concat (map (\<lambda>have_trait. map (Pair have_trait) (gene_assignments (map fst people)))
                (filter (\<lambda>have_trait. matches_evidence people (set have_trait))
                   (powerset (map fst people))))"
  by (simp add: hypotheses_def Let_def fails_evidence_main)

subsection \<open>The loops run their body on the list of hypotheses\<close>

lemma enumeration_visits_hypotheses:
  "enumeration people body s0
     = foldE (\<lambda>(have_trait, one_gene, two_genes). body one_gene two_genes have_trait)
         (hypotheses people) s0"
proof -
  let ?names = "map fst people"
  let ?inner = "\<lambda>have_trait. foldE (\<lambda>one_gene.
         foldE (\<lambda>two_genes. body one_gene two_genes have_trait)
           (powerset (set_minus ?names one_gene))) (powerset ?names)"
  have inner: "foldE (\<lambda>(have_trait, one_gene, two_genes). body one_gene two_genes have_trait)
         (map (Pair have_trait) (gene_assignments ?names)) = ?inner have_trait"
    for have_trait
    by (simp add: gene_assignments_def foldE_map foldE_concat_map)
  have "enumeration people body s0 =
      foldE (\<lambda>have_trait s. if \<not> matches_evidence people (set have_trait)
                             then Inr s else ?inner have_trait s) (powerset ?names) s0"
    by (simp add: enumeration_def fails_evidence_main Let_def)
  also have "\<dots> = foldE ?inner
      (filter (\<lambda>h. matches_evidence people (set h)) (powerset ?names)) s0"
    by (rule foldE_filter)
  also have "\<dots> = foldE
      (\<lambda>(have_trait, one_gene, two_genes). body one_gene two_genes have_trait)
      (hypotheses people) s0"
    by (simp add: hypotheses_unfold foldE_concat_map inner)
  finally show ?thesis .
qed

lemma hypotheses_match_evidence:
  "list_all (\<lambda>(have_trait, one_gene, two_genes). matches_evidence people (set have_trait))
     (hypotheses people)"
  by (auto simp add: hypotheses_unfold list_all_iff)

lemma hypotheses_observed:
  "hypotheses observed = [([''A''], [], []), ([''A''], [], [''A'']), ([''A''], [''A''], [])]"
  by (simp add: hypotheses_def Let_def observed_def gene_assignments_def powerset_Nil
      powerset_single set_minus_def)

text \<open>
  Claim C4. The evidence filter of \<^verbatim>\<open>main\<close> rejects a set \<open>have_trait\<close> exactly when some
  person with a known trait is in the set against the observation (people with unknown trait
  do not matter); the accumulator is the result of running \<^verbatim>\<open>update\<close> over the list of
  visited hypotheses, and every hypothesis of that list agrees with the evidence.
\<close>

theorem evidence_filter_rejects_exactly_contradictions:
  "fails_evidence people (map fst people) have_trait
     = Inr (\<not> matches_evidence people (set have_trait))
   \<and> accumulate people
       = foldE (\<lambda>(have_trait, one_gene, two_genes) probs.
                  update probs one_gene two_genes have_trait
                    (joint_probability people one_gene two_genes have_trait))
           (hypotheses people) (initial_probabilities people)
   \<and> list_all (\<lambda>(have_trait, one_gene, two_genes). matches_evidence people (set have_trait))
       (hypotheses people)"
proof (intro conjI)
  show "fails_evidence people (map fst people) have_trait
     = Inr (\<not> matches_evidence people (set have_trait))"
    by (rule fails_evidence_main)
  show "accumulate people
       = foldE (\<lambda>(have_trait, one_gene, two_genes) probs.
                  update probs one_gene two_genes have_trait
                    (joint_probability people one_gene two_genes have_trait))
           (hypotheses people) (initial_probabilities people)"
    unfolding accumulate_def by (rule enumeration_visits_hypotheses)
  show "list_all (\<lambda>(have_trait, one_gene, two_genes). matches_evidence people (set have_trait))
       (hypotheses people)"
    by (rule hypotheses_match_evidence)
qed

theorem evidence_filter_rejects_exactly_contradictions_witness:
  "fails_evidence observed (map fst observed) [] = Inr True
   \<and> \<not> matches_evidence observed (set [])
   \<and> fails_evidence observed (map fst observed) [''A''] = Inr False
   \<and> matches_evidence observed (set [''A''])
   \<and> list_all (\<lambda>(have_trait, one_gene, two_genes). ''A'' \<in> set have_trait)
       (hypotheses observed)"
proof -
  have no: "fails_evidence observed (map fst observed) [] = Inr True"
    and yes: "fails_evidence observed (map fst observed) [''A''] = Inr False"
    by (simp_all add: observed_def)
  show ?thesis
    using evidence_filter_rejects_exactly_contradictions [of observed "[]"]
      evidence_filter_rejects_exactly_contradictions [of observed "[''A'']"]
    by (simp add: no yes hypotheses_observed)
qed

subsection \<open>Every combination once\<close>










section \<open>The whole run\<close>

lemma accumulate_single_founder:
  "accumulate single_founder = Inr [(''A'',
       \<lparr>gene_2 = 0.0165, gene_1 = 0.461288, gene_0 = 1.9104,
          trait_True = 0.991288, trait_False = 0.871288\<rparr>)]"
  by (simp add: accumulate_def enumeration_def single_founder_def founder_def
      powerset_Nil powerset_single set_minus_def initial_probabilities_def joint_probability_def
      update_def update_no_gene_def update_one_gene_def update_two_genes_def modify_entry_def
      update_trait_def tables)

text \<open>
  Claim C3. The claim: for a founder without evidence the normalized gene distribution is the
  prior \<open>0.96, 0.03, 0.01\<close>. On the pedigree of one founder with no observed trait the code
  returns \<open>477600/597047, 115322/597047, 375/54277\<close> (about \<open>0.7999, 0.1932, 0.0069\<close>) for
  0, 1 and 2 copies.
\<close>

theorem main_single_founder_not_prior:
  "main single_founder = Inr [(''A'',
       \<lparr>gene_2 = 375 / 54277, gene_1 = 115322 / 597047, gene_0 = 477600 / 597047,
          trait_True = 123911 / 232822, trait_False = 108911 / 232822\<rparr>)]
   \<and> (477600 / 597047 :: real) \<noteq> PROBS_gene 0
   \<and> (115322 / 597047 :: real) \<noteq> PROBS_gene 1
   \<and> (375 / 54277 :: real) \<noteq> PROBS_gene 2"
  by (simp add: main_def accumulate_single_founder normalize_entry_def tables)

subsection \<open>No structural validation\<close>















end
